theory Spec2Isabelle
  imports Main
begin

section \<open>The views of the OpenID Connect relying party (oidc\_rp/views.py)\<close>

text \<open>
  The module defines three Django views. Each \<open>get\<close> method is modelled as a function
  from the request (its query parameters and its session) to the response, or the
  exception raised, together with the request as the method leaves it: the session is
  mutated in place by the source, so the model returns it.

  What the module imports and does not define is a parameter of the model: the settings
  object of \<open>.conf\<close>, Django's \<open>reverse\<close>, \<open>build_absolute_uri\<close>,
  \<open>get_random_string\<close> and the quoting done inside \<open>urlencode\<close>, and the two functions
  of \<open>django.contrib.auth\<close>. Both of these receive the request object and may write to
  its session, so both return the request as they leave it: \<open>auth.authenticate\<close> gives
  the user found, if any, and the request; \<open>auth.login\<close> gives the request.
\<close>

subsection \<open>Data\<close>

text \<open>The session is a dictionary; the only values this module stores in it are strings.\<close>

type_synonym session_store = "string \<rightharpoonup> string"

text \<open>\<open>request.GET\<close> (read with \<open>in\<close> and \<open>[]\<close>) and \<open>request.session\<close>.\<close>

record request =
  GET :: "string \<rightharpoonup> string"
  session :: session_store

text \<open>The user object returned by the authentication backend. The view reads
  \<open>is_active\<close>; the primary key, the backend path and the session hash are what a login
  writes to the session.\<close>

record user =
  username :: string
  pk :: string
  is_active :: bool
  backend :: string
  session_auth_hash :: string

text \<open>The attributes of \<open>oidc_rp_settings\<close> that the two implemented views read.\<close>

record settings =
  SCOPES :: string
  CLIENT_ID :: string
  STATE_LENGTH :: nat
  NONCE_LENGTH :: nat
  USE_NONCE :: bool
  PROVIDER_AUTHORIZATION_ENDPOINT :: string
  AUTHENTICATION_REDIRECT_URI :: string
  AUTHENTICATION_FAILURE_REDIRECT_URI :: string

datatype http_response = HttpResponseRedirect string

datatype exn = SuspiciousOperation string

text \<open>
  One run of a view method: the response returned or the exception raised, the request
  with the session as the method left it, and the calls made to the two functions of
  \<open>django.contrib.auth\<close>, in order, with their arguments.
\<close>

record run =
  response :: "exn + http_response"
  request_after :: request
  authenticate_calls :: "(string option \<times> request) list"
  login_calls :: "user list"

subsection \<open>Python primitives\<close>

text \<open>Truth value of \<open>d.get(key, None)\<close> for a string-valued dictionary: \<open>None\<close> and the
  empty string are false.\<close>

fun truthy :: "string option \<Rightarrow> bool" where
  "truthy None = False"
| "truthy (Some s) = (length s \<noteq> 0)"

text \<open>\<open>request.session.pop(key, None)\<close>: the value, and the request with the key removed.\<close>

definition session_pop :: "request \<Rightarrow> string \<Rightarrow> string option \<times> request" where
  "session_pop request key =
     (session request key, request\<lparr>session := (session request)(key := None)\<rparr>)"

text \<open>\<open>request.session[key] = value\<close>.\<close>

definition session_set :: "request \<Rightarrow> string \<Rightarrow> string \<Rightarrow> request" where
  "session_set request key v = request\<lparr>session := (session request)(key \<mapsto> v)\<rparr>"

subsection \<open>OIDCAuthCallbackView.get\<close>

text \<open>
  Lines 75 to 105. The first argument is the settings object; the second is
  \<open>auth.authenticate\<close>, called at line 100 as \<open>authenticate(nonce=nonce, request=request)\<close>;
  the third is \<open>auth.login\<close>, called at line 102 on the same request object and the
  user. The request the method leaves is the one the last call made has returned.
  Inside the guard both \<open>callback_params['state']\<close> and \<open>state\<close> are strings, so the
  comparison of line 96 is the comparison of the two lookups.
\<close>

definition callback_get ::
  "settings \<Rightarrow> (string option \<Rightarrow> request \<Rightarrow> user option \<times> request)
     \<Rightarrow> (request \<Rightarrow> user \<Rightarrow> request) \<Rightarrow> request \<Rightarrow> run" where
  "callback_get cfg authenticate login request0 =
     (let callback_params = GET request0;
          state = session request0 ''oidc_auth_state'';
          (nonce, request) = session_pop request0 ''oidc_auth_nonce''
      in
        if ((truthy nonce \<and> USE_NONCE cfg) \<or> \<not> USE_NONCE cfg) \<and>
           (callback_params ''code'' \<noteq> None \<and> callback_params ''state'' \<noteq> None) \<and>
           truthy state
        then
          if callback_params ''state'' \<noteq> state
          then \<lparr>response = Inl (SuspiciousOperation ''Invalid OpenID Connect callback state value''),
                request_after = request, authenticate_calls = [], login_calls = []\<rparr>
          else
            (let (user, request1) = authenticate nonce request
             in case user of
                  Some u \<Rightarrow>
                    if is_active u
                    then \<lparr>response = Inr (HttpResponseRedirect (AUTHENTICATION_REDIRECT_URI cfg)),
                          request_after = login request1 u,
                          authenticate_calls = [(nonce, request)], login_calls = [u]\<rparr>
                    else \<lparr>response = Inr (HttpResponseRedirect (AUTHENTICATION_FAILURE_REDIRECT_URI cfg)),
                          request_after = request1,
                          authenticate_calls = [(nonce, request)], login_calls = []\<rparr>
                | None \<Rightarrow>
                    \<lparr>response = Inr (HttpResponseRedirect (AUTHENTICATION_FAILURE_REDIRECT_URI cfg)),
                     request_after = request1,
                     authenticate_calls = [(nonce, request)], login_calls = []\<rparr>)
        else \<lparr>response = Inr (HttpResponseRedirect (AUTHENTICATION_FAILURE_REDIRECT_URI cfg)),
              request_after = request, authenticate_calls = [], login_calls = []\<rparr>)"

subsection \<open>OIDCAuthRequestView.get\<close>

text \<open>
  What the view calls and the module does not define: \<open>get_random_string(length)\<close>,
  which consumes randomness (the generator state is threaded), \<open>reverse\<close>,
  \<open>request.build_absolute_uri\<close>, and the quoting that \<open>urlencode\<close> applies to each key
  and each value.
\<close>

record 'g framework =
  get_random_string :: "nat \<Rightarrow> 'g \<Rightarrow> string \<times> 'g"
  reverse :: "string \<Rightarrow> string"
  build_absolute_uri :: "request \<Rightarrow> string \<Rightarrow> string"
  quote_plus :: "string \<Rightarrow> string"

text \<open>\<open>sep.join(parts)\<close>.\<close>

fun join :: "string \<Rightarrow> string list \<Rightarrow> string" where
  "join sep [] = []"
| "join sep [x] = x"
| "join sep (x # y # xs) = x @ sep @ join sep (y # xs)"

text \<open>\<open>urlencode(query)\<close> on a dictionary of strings: \<open>key=value\<close> pairs, both sides
  quoted, joined by \<open>&\<close>. The dictionary is an association list in insertion order.\<close>

definition urlencode :: "(string \<Rightarrow> string) \<Rightarrow> (string \<times> string) list \<Rightarrow> string" where
  "urlencode quote query = join ''&'' (map (\<lambda>(k, v). quote k @ ''='' @ quote v) query)"

text \<open>\<open>d.update({key: value})\<close> on such a dictionary.\<close>

fun dict_update :: "(string \<times> string) list \<Rightarrow> string \<Rightarrow> string \<Rightarrow> (string \<times> string) list" where
  "dict_update [] k v = [(k, v)]"
| "dict_update ((k', v') # d) k v =
     (if k' = k then (k, v) # d else (k', v') # dict_update d k v)"

text \<open>Lines 34 to 60. Returns the response, the request with its session as the method
  left it, and the generator state.\<close>

definition auth_request_get ::
  "settings \<Rightarrow> 'g framework \<Rightarrow> request \<Rightarrow> 'g \<Rightarrow> http_response \<times> request \<times> 'g" where
  "auth_request_get cfg fw request0 g0 =
     (let (state, g1) = get_random_string fw (STATE_LENGTH cfg) g0;
          authentication_request_params0 =
            [(''scope'', SCOPES cfg),
             (''response_type'', ''code''),
             (''client_id'', CLIENT_ID cfg),
             (''redirect_uri'', build_absolute_uri fw request0 (reverse fw ''oidc_auth_callback'')),
             (''state'', state)];
          (authentication_request_params, request1, g2) =
            (if USE_NONCE cfg
             then (let (nonce, g') = get_random_string fw (NONCE_LENGTH cfg) g1
                   in (dict_update authentication_request_params0 ''nonce'' nonce,
                       session_set request0 ''oidc_auth_nonce'' nonce, g'))
             else (authentication_request_params0, request0, g1));
          request2 = session_set request1 ''oidc_auth_state'' state;
          query = urlencode (quote_plus fw) authentication_request_params;
          redirect_url = PROVIDER_AUTHORIZATION_ENDPOINT cfg @ ''?'' @ query
      in (HttpResponseRedirect redirect_url, request2, g2))"

subsection \<open>OIDCEndSessionView\<close>

text \<open>
  Modelled from the spec: the handler of \<open>OIDCEndSessionView\<close>. The source file ends
  after the docstring of the class (line 115), so no method of this view is in the
  source; the model follows section 4.3 of the specification, with the parameter names
  of its section 6 (\<open>post_logout_redirect_uri\<close>, \<open>id_token_hint\<close>).
\<close>

record end_session_settings =
  PROVIDER_END_SESSION_ENDPOINT :: "string option"
  post_logout_target :: string

text \<open>The local session: its store and the principal bound to it by a login.\<close>

record local_session =
  store :: session_store
  principal :: "user option"

definition end_session ::
  "end_session_settings \<Rightarrow> (string \<Rightarrow> string) \<Rightarrow> string option \<Rightarrow> local_session
     \<Rightarrow> http_response \<times> local_session" where
  "end_session cfg quote id_token_hint s =
     (let cleared = \<lparr>store = Map.empty, principal = None\<rparr>
      in case PROVIDER_END_SESSION_ENDPOINT cfg of
           Some endpoint \<Rightarrow>
             (HttpResponseRedirect
                (endpoint @ ''?'' @
                 urlencode quote
                   ((''post_logout_redirect_uri'', post_logout_target cfg) #
                    (case id_token_hint of Some h \<Rightarrow> [(''id_token_hint'', h)] | None \<Rightarrow> []))),
              cleared)
         | None \<Rightarrow> (HttpResponseRedirect (post_logout_target cfg), cleared))"

subsection \<open>The precondition of the callback, as the specification words it\<close>

text \<open>
  Section 4.2, step 1: a value is present in the session when it is retrievable and
  non-empty. Step 4: proceed only if (nonce present or nonce verification disabled) and
  (code and state both present in the callback parameters) and (session state present).
\<close>

definition present :: "string option \<Rightarrow> bool" where
  "present v = (case v of None \<Rightarrow> False | Some s \<Rightarrow> s \<noteq> [])"

definition combined_precondition :: "settings \<Rightarrow> request \<Rightarrow> bool" where
  "combined_precondition cfg request \<longleftrightarrow>
     (present (session request ''oidc_auth_nonce'') \<or> \<not> USE_NONCE cfg) \<and>
     (''code'' \<in> dom (GET request) \<and> ''state'' \<in> dom (GET request)) \<and>
     present (session request ''oidc_auth_state'')"

subsection \<open>Concrete inputs\<close>

text \<open>The scenarios of section 8 of the specification: a session seeded with the state
  \<open>abc123\<close>, a callback carrying \<open>code=XYZ\<close>, and a backend that accepts, rejects, or
  accepts one nonce only. These backends leave the session as it is.\<close>

definition example_settings :: "bool \<Rightarrow> settings" where
  "example_settings nonce_enabled =
     \<lparr>SCOPES = ''openid email'', CLIENT_ID = ''client-1'', STATE_LENGTH = 6,
      NONCE_LENGTH = 2, USE_NONCE = nonce_enabled,
      PROVIDER_AUTHORIZATION_ENDPOINT = ''https://op.example/authorize'',
      AUTHENTICATION_REDIRECT_URI = ''/ok'',
      AUTHENTICATION_FAILURE_REDIRECT_URI = ''/failed''\<rparr>"

definition example_request :: "(string \<times> string) list \<Rightarrow> (string \<times> string) list \<Rightarrow> request" where
  "example_request query stored = \<lparr>GET = map_of query, session = map_of stored\<rparr>"

definition alice :: "bool \<Rightarrow> user" where
  "alice active =
     \<lparr>username = ''alice'', pk = ''1'', is_active = active,
      backend = ''oidc_rp.backends.OIDCAuthBackend'', session_auth_hash = ''hash-of-alice''\<rparr>"

definition accept_as :: "user \<Rightarrow> string option \<Rightarrow> request \<Rightarrow> user option \<times> request" where
  "accept_as u nonce request = (Some u, request)"


definition accept_nonce ::
  "string \<Rightarrow> user \<Rightarrow> string option \<Rightarrow> request \<Rightarrow> user option \<times> request" where
  "accept_nonce expected u nonce request =
     (if nonce = Some expected then Some u else None, request)"

text \<open>
  A login that treats the session as \<open>django.contrib.auth.login\<close> does. When the session
  already holds \<open>_auth_user_id\<close> and it is the key of another user, or the stored hash is
  not the hash of this user, the session is flushed: every entry is deleted. Otherwise
  the entries stay (only the session key is cycled). Then the three \<open>_auth_user\<close> entries
  are written.
\<close>

definition django_login :: "request \<Rightarrow> user \<Rightarrow> request" where
  "django_login request u =
     (let s = session request;
          kept =
            (case s ''_auth_user_id'' of
               Some k \<Rightarrow>
                 if k \<noteq> pk u \<or>
                    (session_auth_hash u \<noteq> [] \<and>
                     (case s ''_auth_user_hash'' of None \<Rightarrow> [] | Some h \<Rightarrow> h) \<noteq> session_auth_hash u)
                 then Map.empty
                 else s
             | None \<Rightarrow> s)
      in request\<lparr>session := kept(''_auth_user_id'' \<mapsto> pk u,
                                   ''_auth_user_backend'' \<mapsto> backend u,
                                   ''_auth_user_hash'' \<mapsto> session_auth_hash u)\<rparr>)"

text \<open>A framework for the initiation view: random strings are read off a tape, the
  callback is routed at \<open>/oidc/callback/\<close> on \<open>https://rp.example\<close>, and quoting keeps
  letters, digits and \<open>_.-\<close>, turns a space into \<open>+\<close> and writes any other character
  as \<open>%\<close> and two hexadecimal digits.\<close>

definition hex_digit :: "nat \<Rightarrow> char" where
  "hex_digit n = ''0123456789ABCDEF'' ! (n mod 16)"

definition quote_char :: "char \<Rightarrow> string" where
  "quote_char c =
     (if c \<in> set ''abcdefghijklmnopqrstuvwxyzABCDEFGHIJKLMNOPQRSTUVWXYZ0123456789_.-'' then [c]
      else if c = CHR '' '' then ''+''
      else [CHR ''%'', hex_digit (of_char c div 16), hex_digit (of_char c mod 16)])"

definition example_framework :: "string framework" where
  "example_framework =
     \<lparr>get_random_string = (\<lambda>n tape. (take n tape, drop n tape)),
      reverse = (\<lambda>name. ''/oidc/callback/''),
      build_absolute_uri = (\<lambda>request path. ''https://rp.example'' @ path),
      quote_plus = (\<lambda>s. concat (map quote_char s))\<rparr>"

section \<open>Properties of the callback view\<close>

lemma truthy_present: "truthy v = present v"
  by (cases v) (simp_all add: present_def)

lemma guard_is_combined_precondition:
  "(((truthy (session request ''oidc_auth_nonce'') \<and> USE_NONCE cfg) \<or> \<not> USE_NONCE cfg) \<and>
    (GET request ''code'' \<noteq> None \<and> GET request ''state'' \<noteq> None) \<and>
    truthy (session request ''oidc_auth_state''))
   = combined_precondition cfg request"
  by (auto simp: combined_precondition_def truthy_present)

lemma callback_get_unfold:
  "callback_get cfg authenticate login request =
     (let popped = request\<lparr>session := (session request)(''oidc_auth_nonce'' := None)\<rparr>;
          nonce = session request ''oidc_auth_nonce'';
          verdict = authenticate nonce popped
      in if combined_precondition cfg request
         then if GET request ''state'' \<noteq> session request ''oidc_auth_state''
              then \<lparr>response = Inl (SuspiciousOperation ''Invalid OpenID Connect callback state value''),
                    request_after = popped, authenticate_calls = [], login_calls = []\<rparr>
              else (case fst verdict of
                      Some u \<Rightarrow>
                        if is_active u
                        then \<lparr>response = Inr (HttpResponseRedirect (AUTHENTICATION_REDIRECT_URI cfg)),
                              request_after = login (snd verdict) u,
                              authenticate_calls = [(nonce, popped)], login_calls = [u]\<rparr>
                        else \<lparr>response = Inr (HttpResponseRedirect (AUTHENTICATION_FAILURE_REDIRECT_URI cfg)),
                              request_after = snd verdict,
                              authenticate_calls = [(nonce, popped)], login_calls = []\<rparr>
                    | None \<Rightarrow>
                        \<lparr>response = Inr (HttpResponseRedirect (AUTHENTICATION_FAILURE_REDIRECT_URI cfg)),
                         request_after = snd verdict,
                         authenticate_calls = [(nonce, popped)], login_calls = []\<rparr>)
         else \<lparr>response = Inr (HttpResponseRedirect (AUTHENTICATION_FAILURE_REDIRECT_URI cfg)),
               request_after = popped, authenticate_calls = [], login_calls = []\<rparr>)"
  unfolding callback_get_def session_pop_def Let_def case_prod_beta fst_conv snd_conv
  by (simp only: guard_is_combined_precondition)

text \<open>
  C1. When the combined precondition holds and the \<open>state\<close> parameter of the callback
  differs from the state stored in the session, the callback view raises
  SuspiciousOperation instead of returning a redirect, calls neither the backend nor
  login, and so establishes no session, whatever the \<open>code\<close> and whatever the backend
  would have answered.
\<close>

theorem callback_state_mismatch_raises:
  fixes cfg :: settings and request :: request
    and authenticate :: "string option \<Rightarrow> request \<Rightarrow> user option \<times> request"
    and login :: "request \<Rightarrow> user \<Rightarrow> request"
  assumes "combined_precondition cfg request"
    and "GET request ''state'' \<noteq> session request ''oidc_auth_state''"
  defines "r \<equiv> callback_get cfg authenticate login request"
  shows "response r = Inl (SuspiciousOperation ''Invalid OpenID Connect callback state value'')
         \<and> login_calls r = [] \<and> authenticate_calls r = []"
  using assms by (simp add: callback_get_unfold Let_def)

theorem callback_state_mismatch_raises_witness:
  "combined_precondition (example_settings False)
     (example_request [(''code'', ''XYZ''), (''state'', ''WRONG'')] [(''oidc_auth_state'', ''abc123'')])
   \<and> GET (example_request [(''code'', ''XYZ''), (''state'', ''WRONG'')] [(''oidc_auth_state'', ''abc123'')]) ''state''
       \<noteq> session (example_request [(''code'', ''XYZ''), (''state'', ''WRONG'')] [(''oidc_auth_state'', ''abc123'')]) ''oidc_auth_state''
   \<and> response (callback_get (example_settings False) (accept_as (alice True)) django_login
        (example_request [(''code'', ''XYZ''), (''state'', ''WRONG'')] [(''oidc_auth_state'', ''abc123'')]))
       = Inl (SuspiciousOperation ''Invalid OpenID Connect callback state value'')
   \<and> login_calls (callback_get (example_settings False) (accept_as (alice True)) django_login
        (example_request [(''code'', ''XYZ''), (''state'', ''WRONG'')] [(''oidc_auth_state'', ''abc123'')])) = []"
  using callback_state_mismatch_raises
    [where cfg = "example_settings False"
       and request = "example_request [(''code'', ''XYZ''), (''state'', ''WRONG'')] [(''oidc_auth_state'', ''abc123'')]"
       and authenticate = "accept_as (alice True)" and login = django_login]
  by (simp add: combined_precondition_def present_def example_settings_def example_request_def)



text \<open>
  C3. Every run of the callback view removes \<open>oidc_auth_nonce\<close> from the session,
  whatever the outcome. Consequently a second callback on the session the first one
  left, with nonce verification enabled, fails the nonce precondition: whatever its
  parameters and whatever its backend and login, it returns the redirect to the failure
  URL and calls neither the backend nor login.

  The backend and the login of the first run are any functions that do not themselves
  store a nonce in a session that has none; a login that flushes the session or writes
  the \<open>_auth_user\<close> entries is one of them. A backend and a login without any effect on
  the session are a special case.
\<close>

theorem callback_consumes_nonce:
  fixes cfg_first cfg_second :: settings and request :: request
    and params_second :: "string \<rightharpoonup> string"
    and authenticate_first authenticate_second :: "string option \<Rightarrow> request \<Rightarrow> user option \<times> request"
    and login_first login_second :: "request \<Rightarrow> user \<Rightarrow> request"
  assumes backend_stores_no_nonce:
      "\<And>n rq. session rq ''oidc_auth_nonce'' = None
         \<Longrightarrow> session (snd (authenticate_first n rq)) ''oidc_auth_nonce'' = None"
    and login_stores_no_nonce:
      "\<And>rq u. session rq ''oidc_auth_nonce'' = None
         \<Longrightarrow> session (login_first rq u) ''oidc_auth_nonce'' = None"
  defines "first \<equiv> callback_get cfg_first authenticate_first login_first request"
  defines "second \<equiv> callback_get cfg_second authenticate_second login_second
                       ((request_after first)\<lparr>GET := params_second\<rparr>)"
  shows "session (request_after first) ''oidc_auth_nonce'' = None
         \<and> (USE_NONCE cfg_second \<longrightarrow>
              response second = Inr (HttpResponseRedirect (AUTHENTICATION_FAILURE_REDIRECT_URI cfg_second))
              \<and> authenticate_calls second = [] \<and> login_calls second = [])"
proof -
  let ?popped = "request\<lparr>session := (session request)(''oidc_auth_nonce'' := None)\<rparr>"
  let ?verdict = "authenticate_first (session request ''oidc_auth_nonce'') ?popped"
  have after_pop: "session ?popped ''oidc_auth_nonce'' = None"
    by simp
  have after_backend: "session (snd ?verdict) ''oidc_auth_nonce'' = None"
    using backend_stores_no_nonce [OF after_pop] .
  have after_login: "session (login_first (snd ?verdict) u) ''oidc_auth_nonce'' = None" for u
    using login_stores_no_nonce [OF after_backend] .
  have consumed: "session (request_after first) ''oidc_auth_nonce'' = None"
    unfolding first_def using after_backend after_login
    by (simp add: callback_get_unfold Let_def split: option.split)
  have "\<not> combined_precondition cfg_second ((request_after first)\<lparr>GET := params_second\<rparr>)"
    if "USE_NONCE cfg_second"
    using that consumed by (simp add: combined_precondition_def present_def)
  then show ?thesis
    using consumed unfolding second_def by (simp add: callback_get_unfold Let_def)
qed

theorem callback_consumes_nonce_witness:
  "USE_NONCE (example_settings True)
   \<and> login_calls (callback_get (example_settings True) (accept_as (alice True)) django_login
        (example_request [(''code'', ''XYZ''), (''state'', ''abc123'')]
           [(''oidc_auth_state'', ''abc123''), (''oidc_auth_nonce'', ''n1'')])) = [alice True]
   \<and> session (request_after (callback_get (example_settings True) (accept_as (alice True)) django_login
        (example_request [(''code'', ''XYZ''), (''state'', ''abc123'')]
           [(''oidc_auth_state'', ''abc123''), (''oidc_auth_nonce'', ''n1'')]))) ''oidc_auth_nonce'' = None
   \<and> response (callback_get (example_settings True) (accept_as (alice True)) django_login
        ((request_after (callback_get (example_settings True) (accept_as (alice True)) django_login
            (example_request [(''code'', ''XYZ''), (''state'', ''abc123'')]
               [(''oidc_auth_state'', ''abc123''), (''oidc_auth_nonce'', ''n1'')])))
         \<lparr>GET := map_of [(''code'', ''XYZ''), (''state'', ''abc123'')]\<rparr>))
       = Inr (HttpResponseRedirect ''/failed'')
   \<and> login_calls (callback_get (example_settings True) (accept_as (alice True)) django_login
        ((request_after (callback_get (example_settings True) (accept_as (alice True)) django_login
            (example_request [(''code'', ''XYZ''), (''state'', ''abc123'')]
               [(''oidc_auth_state'', ''abc123''), (''oidc_auth_nonce'', ''n1'')])))
         \<lparr>GET := map_of [(''code'', ''XYZ''), (''state'', ''abc123'')]\<rparr>)) = []"
proof -
  have backend: "session (snd (accept_as (alice True) n rq)) ''oidc_auth_nonce'' = None"
    if "session rq ''oidc_auth_nonce'' = None" for n rq
    using that by (simp add: accept_as_def)
  have login: "session (django_login rq u) ''oidc_auth_nonce'' = None"
    if "session rq ''oidc_auth_nonce'' = None" for rq u
    using that by (simp add: django_login_def Let_def split: option.split)
  have first_run: "login_calls (callback_get (example_settings True) (accept_as (alice True)) django_login
        (example_request [(''code'', ''XYZ''), (''state'', ''abc123'')]
           [(''oidc_auth_state'', ''abc123''), (''oidc_auth_nonce'', ''n1'')])) = [alice True]"
    by (simp add: callback_get_def session_pop_def Let_def example_settings_def
          example_request_def accept_as_def alice_def)
  have enabled: "USE_NONCE (example_settings True)"
    by (simp add: example_settings_def)
  have failure: "AUTHENTICATION_FAILURE_REDIRECT_URI (example_settings True) = ''/failed''"
    by (simp add: example_settings_def)
  show ?thesis
    using first_run enabled failure
      callback_consumes_nonce
        [where authenticate_first = "accept_as (alice True)" and login_first = django_login
           and cfg_first = "example_settings True"
           and request = "example_request [(''code'', ''XYZ''), (''state'', ''abc123'')]
               [(''oidc_auth_state'', ''abc123''), (''oidc_auth_nonce'', ''n1'')]"
           and cfg_second = "example_settings True"
           and authenticate_second = "accept_as (alice True)" and login_second = django_login
           and params_second = "map_of [(''code'', ''XYZ''), (''state'', ''abc123'')]",
         OF backend login]
    by simp
qed

text \<open>
  C4. When no state is present in the session (none stored, or the session was cleared
  or has expired), the callback view returns the redirect to the failure URL and does
  not raise SuspiciousOperation, even if the callback carries a \<open>code\<close> and a \<open>state\<close>;
  it calls neither the backend nor login.
\<close>

theorem callback_without_session_state_fails:
  fixes cfg :: settings and request :: request
    and authenticate :: "string option \<Rightarrow> request \<Rightarrow> user option \<times> request"
    and login :: "request \<Rightarrow> user \<Rightarrow> request"
  assumes "\<not> present (session request ''oidc_auth_state'')"
  defines "r \<equiv> callback_get cfg authenticate login request"
  shows "response r = Inr (HttpResponseRedirect (AUTHENTICATION_FAILURE_REDIRECT_URI cfg))
         \<and> \<not> isl (response r) \<and> authenticate_calls r = [] \<and> login_calls r = []"
proof -
  have "\<not> combined_precondition cfg request"
    using assms(1) by (simp add: combined_precondition_def)
  then show ?thesis
    unfolding r_def by (simp add: callback_get_unfold Let_def)
qed

theorem callback_without_session_state_fails_witness:
  "\<not> present (session (example_request [(''code'', ''XYZ''), (''state'', ''abc123'')] []) ''oidc_auth_state'')
   \<and> response (callback_get (example_settings False) (accept_as (alice True)) django_login
        (example_request [(''code'', ''XYZ''), (''state'', ''abc123'')] []))
       = Inr (HttpResponseRedirect ''/failed'')
   \<and> login_calls (callback_get (example_settings False) (accept_as (alice True)) django_login
        (example_request [(''code'', ''XYZ''), (''state'', ''abc123'')] [])) = []"
  using callback_without_session_state_fails
    [where request = "example_request [(''code'', ''XYZ''), (''state'', ''abc123'')] []"
       and cfg = "example_settings False" and authenticate = "accept_as (alice True)"
       and login = django_login]
  by (simp add: present_def example_settings_def example_request_def)

text \<open>
  C6. With nonce verification disabled and no nonce in the session, a callback that
  carries a \<open>code\<close> and a \<open>state\<close> equal to the non-empty state of the session reaches the
  backend, which receives \<open>None\<close> as nonce; when the backend returns an active user the
  view logs this user in, on the request the backend has left, and redirects to the
  success URL.
\<close>

theorem callback_succeeds_without_nonce:
  fixes cfg :: settings and request request_seen :: request
    and authenticate :: "string option \<Rightarrow> request \<Rightarrow> user option \<times> request"
    and login :: "request \<Rightarrow> user \<Rightarrow> request"
  assumes "\<not> USE_NONCE cfg"
    and "session request ''oidc_auth_nonce'' = None"
    and "''code'' \<in> dom (GET request)"
    and "GET request ''state'' = Some s"
    and "session request ''oidc_auth_state'' = Some s"
    and "s \<noteq> []"
    and "authenticate None request = (Some u, request_seen)"
    and "is_active u"
  defines "r \<equiv> callback_get cfg authenticate login request"
  shows "response r = Inr (HttpResponseRedirect (AUTHENTICATION_REDIRECT_URI cfg))
         \<and> login_calls r = [u] \<and> authenticate_calls r = [(None, request)]
         \<and> request_after r = login request_seen u"
proof -
  have pre: "combined_precondition cfg request"
    using assms(1,3,4,5,6) by (auto simp: combined_precondition_def present_def)
  have same: "request\<lparr>session := (session request)(''oidc_auth_nonce'' := None)\<rparr> = request"
    using assms(2) by (simp add: fun_upd_idem)
  show ?thesis
    unfolding r_def using pre same assms(2,4,5,7,8)
    by (simp add: callback_get_unfold Let_def)
qed

theorem callback_succeeds_without_nonce_witness:
  "\<not> USE_NONCE (example_settings False)
   \<and> session (example_request [(''code'', ''XYZ''), (''state'', ''abc123'')] [(''oidc_auth_state'', ''abc123'')])
        ''oidc_auth_nonce'' = None
   \<and> response (callback_get (example_settings False) (accept_as (alice True)) django_login
        (example_request [(''code'', ''XYZ''), (''state'', ''abc123'')] [(''oidc_auth_state'', ''abc123'')]))
       = Inr (HttpResponseRedirect ''/ok'')
   \<and> login_calls (callback_get (example_settings False) (accept_as (alice True)) django_login
        (example_request [(''code'', ''XYZ''), (''state'', ''abc123'')] [(''oidc_auth_state'', ''abc123'')]))
       = [alice True]"
  using callback_succeeds_without_nonce
    [where cfg = "example_settings False"
       and request = "example_request [(''code'', ''XYZ''), (''state'', ''abc123'')] [(''oidc_auth_state'', ''abc123'')]"
       and request_seen = "example_request [(''code'', ''XYZ''), (''state'', ''abc123'')] [(''oidc_auth_state'', ''abc123'')]"
       and s = "''abc123''" and authenticate = "accept_as (alice True)" and u = "alice True"
       and login = django_login]
  by (simp add: example_settings_def example_request_def accept_as_def alice_def)



text \<open>
  C8, as stated: after any run of the callback view, successful ones included, the
  entry \<open>oidc_auth_state\<close> of the session is the one the run started with. This fails
  on a successful callback in a session that belongs to another user: the login of line
  102 flushes such a session, and the state stored at initiation goes with it.
\<close>

theorem callback_login_flush_drops_session_state:
  "session (example_request [(''code'', ''XYZ''), (''state'', ''abc123'')]
      [(''oidc_auth_state'', ''abc123''), (''_auth_user_id'', ''7'')]) ''oidc_auth_state'' = Some ''abc123''
   \<and> response (callback_get (example_settings False) (accept_as (alice True)) django_login
        (example_request [(''code'', ''XYZ''), (''state'', ''abc123'')]
           [(''oidc_auth_state'', ''abc123''), (''_auth_user_id'', ''7'')]))
       = Inr (HttpResponseRedirect ''/ok'')
   \<and> session (request_after (callback_get (example_settings False) (accept_as (alice True)) django_login
        (example_request [(''code'', ''XYZ''), (''state'', ''abc123'')]
           [(''oidc_auth_state'', ''abc123''), (''_auth_user_id'', ''7'')]))) ''oidc_auth_state'' = None"
  by (simp add: callback_get_def session_pop_def Let_def example_settings_def example_request_def
        accept_as_def alice_def django_login_def)

text \<open>
  C8, as amended. The statements of the callback view itself only read
  \<open>oidc_auth_state\<close>. After a run that does not reach the backend (a failure of the
  preconditions, or the exception of the state check) the entry is the one the run
  started with. After a run that reaches the backend it is still that one, provided the
  backend leaves it as it is on the request it is given and, when the view logs the
  returned user in, login leaves it as it is.
\<close>

theorem callback_itself_keeps_session_state:
  fixes cfg :: settings and request :: request
    and authenticate :: "string option \<Rightarrow> request \<Rightarrow> user option \<times> request"
    and login :: "request \<Rightarrow> user \<Rightarrow> request"
  defines "r \<equiv> callback_get cfg authenticate login request"
  defines "verdict \<equiv> authenticate (session request ''oidc_auth_nonce'')
                        (request\<lparr>session := (session request)(''oidc_auth_nonce'' := None)\<rparr>)"
  shows "(authenticate_calls r = [] \<longrightarrow>
            session (request_after r) ''oidc_auth_state'' = session request ''oidc_auth_state'')
         \<and> (session (snd verdict) ''oidc_auth_state'' = session request ''oidc_auth_state''
              \<and> (\<forall>u. fst verdict = Some u \<and> is_active u \<longrightarrow>
                    session (login (snd verdict) u) ''oidc_auth_state''
                      = session (snd verdict) ''oidc_auth_state'')
            \<longrightarrow> session (request_after r) ''oidc_auth_state'' = session request ''oidc_auth_state'')"
  unfolding r_def verdict_def
  by (simp add: callback_get_unfold Let_def split: option.split)

theorem callback_itself_keeps_session_state_witness:
  "authenticate_calls (callback_get (example_settings False) (accept_as (alice True)) django_login
      (example_request [(''code'', ''XYZ''), (''state'', ''WRONG'')] [(''oidc_auth_state'', ''abc123'')])) = []
   \<and> session (request_after (callback_get (example_settings False) (accept_as (alice True)) django_login
        (example_request [(''code'', ''XYZ''), (''state'', ''WRONG'')] [(''oidc_auth_state'', ''abc123'')])))
         ''oidc_auth_state'' = Some ''abc123''
   \<and> login_calls (callback_get (example_settings True) (accept_as (alice True)) django_login
        (example_request [(''code'', ''XYZ''), (''state'', ''abc123'')]
           [(''oidc_auth_state'', ''abc123''), (''oidc_auth_nonce'', ''n1'')])) = [alice True]
   \<and> session (request_after (callback_get (example_settings True) (accept_as (alice True)) django_login
        (example_request [(''code'', ''XYZ''), (''state'', ''abc123'')]
           [(''oidc_auth_state'', ''abc123''), (''oidc_auth_nonce'', ''n1'')]))) ''oidc_auth_state''
       = Some ''abc123''"
proof -
  have no_call: "authenticate_calls (callback_get (example_settings False) (accept_as (alice True)) django_login
      (example_request [(''code'', ''XYZ''), (''state'', ''WRONG'')] [(''oidc_auth_state'', ''abc123'')])) = []"
    by (simp add: callback_get_def session_pop_def Let_def example_settings_def example_request_def)
  have logged_in: "login_calls (callback_get (example_settings True) (accept_as (alice True)) django_login
        (example_request [(''code'', ''XYZ''), (''state'', ''abc123'')]
           [(''oidc_auth_state'', ''abc123''), (''oidc_auth_nonce'', ''n1'')])) = [alice True]"
    by (simp add: callback_get_def session_pop_def Let_def example_settings_def
          example_request_def accept_as_def alice_def)
  show ?thesis
    using no_call logged_in
      callback_itself_keeps_session_state
        [where cfg = "example_settings False" and authenticate = "accept_as (alice True)"
           and login = django_login
           and request = "example_request [(''code'', ''XYZ''), (''state'', ''WRONG'')]
               [(''oidc_auth_state'', ''abc123'')]"]
      callback_itself_keeps_session_state
        [where cfg = "example_settings True" and authenticate = "accept_as (alice True)"
           and login = django_login
           and request = "example_request [(''code'', ''XYZ''), (''state'', ''abc123'')]
               [(''oidc_auth_state'', ''abc123''), (''oidc_auth_nonce'', ''n1'')]"]
    by (simp add: example_request_def accept_as_def django_login_def Let_def)
qed

text \<open>
  C10, as stated: even with nonce verification disabled, every run pops the nonce and
  passes the popped value to the backend, so a stale nonce is consumed and forwarded.
  This fails on a callback without a \<open>code\<close>: the stale nonce is removed from the
  session, and the backend, which would have accepted anything, is not called; the
  view returns the failure redirect.
\<close>

theorem callback_stale_nonce_consumed_not_forwarded:
  "\<not> USE_NONCE (example_settings False)
   \<and> session (example_request [(''state'', ''abc123'')]
        [(''oidc_auth_state'', ''abc123''), (''oidc_auth_nonce'', ''stale'')]) ''oidc_auth_nonce'' = Some ''stale''
   \<and> session (request_after (callback_get (example_settings False) (accept_as (alice True)) django_login
        (example_request [(''state'', ''abc123'')]
           [(''oidc_auth_state'', ''abc123''), (''oidc_auth_nonce'', ''stale'')]))) ''oidc_auth_nonce'' = None
   \<and> authenticate_calls (callback_get (example_settings False) (accept_as (alice True)) django_login
        (example_request [(''state'', ''abc123'')]
           [(''oidc_auth_state'', ''abc123''), (''oidc_auth_nonce'', ''stale'')])) = []
   \<and> login_calls (callback_get (example_settings False) (accept_as (alice True)) django_login
        (example_request [(''state'', ''abc123'')]
           [(''oidc_auth_state'', ''abc123''), (''oidc_auth_nonce'', ''stale'')])) = []
   \<and> response (callback_get (example_settings False) (accept_as (alice True)) django_login
        (example_request [(''state'', ''abc123'')]
           [(''oidc_auth_state'', ''abc123''), (''oidc_auth_nonce'', ''stale'')]))
       = Inr (HttpResponseRedirect ''/failed'')"
  by (simp add: callback_get_def session_pop_def Let_def example_settings_def example_request_def)

text \<open>
  C10, as amended. The pop of \<open>oidc_auth_nonce\<close> does not depend on the nonce setting:
  in every run the request that goes on has no nonce in its session. A run that fails
  the preconditions or the state check calls no backend and leaves this request: the
  popped value is consumed and not forwarded. With nonce verification disabled, a run
  whose callback has a \<open>code\<close> and a \<open>state\<close> equal to the state present in the session
  applies the backend once, to the popped value (\<open>None\<close> when the session held none) and
  the request after the pop, and what the backend answers on these arguments decides
  who is logged in and which request is left; so on these runs a stale nonce is
  forwarded rather than ignored.
\<close>

theorem callback_forwards_popped_nonce_when_proceeding:
  fixes cfg :: settings and request :: request
    and authenticate :: "string option \<Rightarrow> request \<Rightarrow> user option \<times> request"
    and login :: "request \<Rightarrow> user \<Rightarrow> request"
  defines "r \<equiv> callback_get cfg authenticate login request"
  defines "popped \<equiv> request\<lparr>session := (session request)(''oidc_auth_nonce'' := None)\<rparr>"
  defines "verdict \<equiv> authenticate (session request ''oidc_auth_nonce'') popped"
  shows "session popped ''oidc_auth_nonce'' = None
         \<and> (authenticate_calls r = [] \<longrightarrow> request_after r = popped)
         \<and> (\<not> combined_precondition cfg request \<longrightarrow> authenticate_calls r = [])
         \<and> (GET request ''state'' \<noteq> session request ''oidc_auth_state'' \<longrightarrow> authenticate_calls r = [])
         \<and> (\<not> USE_NONCE cfg \<and> ''code'' \<in> dom (GET request)
              \<and> present (session request ''oidc_auth_state'')
              \<and> GET request ''state'' = session request ''oidc_auth_state''
            \<longrightarrow> authenticate_calls r = [(session request ''oidc_auth_nonce'', popped)]
                \<and> login_calls r =
                    (case fst verdict of
                       Some u \<Rightarrow> if is_active u then [u] else []
                     | None \<Rightarrow> [])
                \<and> request_after r =
                    (case fst verdict of
                       Some u \<Rightarrow> if is_active u then login (snd verdict) u else snd verdict
                     | None \<Rightarrow> snd verdict))"
proof -
  have a: "session popped ''oidc_auth_nonce'' = None"
    unfolding popped_def by simp
  have b: "request_after r = popped" if "authenticate_calls r = []"
    using that unfolding r_def popped_def
    by (simp add: callback_get_unfold Let_def split: if_splits option.splits)
  have c: "authenticate_calls r = []" if "\<not> combined_precondition cfg request"
    using that unfolding r_def by (simp add: callback_get_unfold Let_def)
  have d: "authenticate_calls r = []"
    if "GET request ''state'' \<noteq> session request ''oidc_auth_state''"
    using that unfolding r_def by (simp add: callback_get_unfold Let_def)
  have e: "authenticate_calls r = [(session request ''oidc_auth_nonce'', popped)]
           \<and> login_calls r =
               (case fst verdict of Some u \<Rightarrow> if is_active u then [u] else [] | None \<Rightarrow> [])
           \<and> request_after r =
               (case fst verdict of
                  Some u \<Rightarrow> if is_active u then login (snd verdict) u else snd verdict
                | None \<Rightarrow> snd verdict)"
    if "\<not> USE_NONCE cfg" "''code'' \<in> dom (GET request)"
       "present (session request ''oidc_auth_state'')"
       "GET request ''state'' = session request ''oidc_auth_state''"
  proof -
    have "combined_precondition cfg request"
      using that by (auto simp: combined_precondition_def present_def split: option.splits)
    then show ?thesis
      unfolding r_def popped_def verdict_def using that(4)
      by (simp add: callback_get_unfold Let_def split: option.split)
  qed
  from a b c d e show ?thesis by blast
qed

theorem callback_forwards_popped_nonce_when_proceeding_witness:
  "\<not> USE_NONCE (example_settings False)
   \<and> session (example_request [(''code'', ''XYZ''), (''state'', ''abc123'')]
        [(''oidc_auth_state'', ''abc123''), (''oidc_auth_nonce'', ''stale'')]) ''oidc_auth_nonce'' = Some ''stale''
   \<and> map fst (authenticate_calls (callback_get (example_settings False)
        (accept_nonce ''stale'' (alice True)) django_login
        (example_request [(''code'', ''XYZ''), (''state'', ''abc123'')]
           [(''oidc_auth_state'', ''abc123''), (''oidc_auth_nonce'', ''stale'')]))) = [Some ''stale'']
   \<and> login_calls (callback_get (example_settings False)
        (accept_nonce ''stale'' (alice True)) django_login
        (example_request [(''code'', ''XYZ''), (''state'', ''abc123'')]
           [(''oidc_auth_state'', ''abc123''), (''oidc_auth_nonce'', ''stale'')])) = [alice True]
   \<and> login_calls (callback_get (example_settings False)
        (accept_nonce ''fresh'' (alice True)) django_login
        (example_request [(''code'', ''XYZ''), (''state'', ''abc123'')]
           [(''oidc_auth_state'', ''abc123''), (''oidc_auth_nonce'', ''stale'')])) = []
   \<and> \<not> combined_precondition (example_settings False)
        (example_request [(''state'', ''abc123'')]
           [(''oidc_auth_state'', ''abc123''), (''oidc_auth_nonce'', ''stale'')])
   \<and> authenticate_calls (callback_get (example_settings False)
        (accept_nonce ''stale'' (alice True)) django_login
        (example_request [(''state'', ''abc123'')]
           [(''oidc_auth_state'', ''abc123''), (''oidc_auth_nonce'', ''stale'')])) = []"
  using
    callback_forwards_popped_nonce_when_proceeding
      [where cfg = "example_settings False" and authenticate = "accept_nonce ''stale'' (alice True)"
         and login = django_login
         and request = "example_request [(''code'', ''XYZ''), (''state'', ''abc123'')]
             [(''oidc_auth_state'', ''abc123''), (''oidc_auth_nonce'', ''stale'')]"]
    callback_forwards_popped_nonce_when_proceeding
      [where cfg = "example_settings False" and authenticate = "accept_nonce ''fresh'' (alice True)"
         and login = django_login
         and request = "example_request [(''code'', ''XYZ''), (''state'', ''abc123'')]
             [(''oidc_auth_state'', ''abc123''), (''oidc_auth_nonce'', ''stale'')]"]
    callback_forwards_popped_nonce_when_proceeding
      [where cfg = "example_settings False" and authenticate = "accept_nonce ''stale'' (alice True)"
         and login = django_login
         and request = "example_request [(''state'', ''abc123'')]
             [(''oidc_auth_state'', ''abc123''), (''oidc_auth_nonce'', ''stale'')]"]
  by (simp add: combined_precondition_def present_def example_settings_def example_request_def
        accept_nonce_def alice_def)

section \<open>Properties of the initiation view\<close>

text \<open>
  C5. The initiation view redirects to the configured authorization endpoint followed
  by \<open>?\<close> and the URL-encoded parameters, which are exactly: the configured scope,
  \<open>response_type=code\<close>, the configured client identifier, the absolute URL of the
  callback as \<open>redirect_uri\<close>, and as \<open>state\<close> the value the view has stored in the
  session under \<open>oidc_auth_state\<close>; a \<open>nonce\<close> parameter follows if and only if nonce
  mode is enabled, and it is the value stored under \<open>oidc_auth_nonce\<close>.
\<close>

theorem auth_request_redirect_url:
  assumes "auth_request_get cfg fw request g = (resp, request', g')"
  shows "\<exists>state. session request' ''oidc_auth_state'' = Some state \<and>
           (if USE_NONCE cfg
            then \<exists>nonce. session request' ''oidc_auth_nonce'' = Some nonce \<and>
                   resp = HttpResponseRedirect
                     (PROVIDER_AUTHORIZATION_ENDPOINT cfg @ ''?'' @
                      urlencode (quote_plus fw)
                        [(''scope'', SCOPES cfg),
                         (''response_type'', ''code''),
                         (''client_id'', CLIENT_ID cfg),
                         (''redirect_uri'', build_absolute_uri fw request (reverse fw ''oidc_auth_callback'')),
                         (''state'', state),
                         (''nonce'', nonce)])
            else resp = HttpResponseRedirect
                     (PROVIDER_AUTHORIZATION_ENDPOINT cfg @ ''?'' @
                      urlencode (quote_plus fw)
                        [(''scope'', SCOPES cfg),
                         (''response_type'', ''code''),
                         (''client_id'', CLIENT_ID cfg),
                         (''redirect_uri'', build_absolute_uri fw request (reverse fw ''oidc_auth_callback'')),
                         (''state'', state)]))"
proof (cases "USE_NONCE cfg")
  case True
  then show ?thesis
    using assms
    by (auto simp: auth_request_get_def session_set_def Let_def split: prod.splits)
next
  case False
  then show ?thesis
    using assms
    by (auto simp: auth_request_get_def session_set_def Let_def split: prod.splits)
qed

theorem auth_request_redirect_url_witness:
  "auth_request_get (example_settings True) example_framework (example_request [] []) ''abc123n1zz''
     = (HttpResponseRedirect
          ''https://op.example/authorize?scope=openid+email&response_type=code&client_id=client-1&redirect_uri=https%3A%2F%2Frp.example%2Foidc%2Fcallback%2F&state=abc123&nonce=n1'',
        session_set (session_set (example_request [] []) ''oidc_auth_nonce'' ''n1'') ''oidc_auth_state'' ''abc123'',
        ''zz'')
   \<and> session (session_set (session_set (example_request [] []) ''oidc_auth_nonce'' ''n1'') ''oidc_auth_state'' ''abc123'')
         ''oidc_auth_state'' = Some ''abc123''
   \<and> session (session_set (session_set (example_request [] []) ''oidc_auth_nonce'' ''n1'') ''oidc_auth_state'' ''abc123'')
         ''oidc_auth_nonce'' = Some ''n1''
   \<and> urlencode (quote_plus example_framework)
         [(''scope'', ''openid email''), (''response_type'', ''code''), (''client_id'', ''client-1''),
          (''redirect_uri'', ''https://rp.example/oidc/callback/''), (''state'', ''abc123''), (''nonce'', ''n1'')]
       = ''scope=openid+email&response_type=code&client_id=client-1&redirect_uri=https%3A%2F%2Frp.example%2Foidc%2Fcallback%2F&state=abc123&nonce=n1''"
proof -
  have run: "auth_request_get (example_settings True) example_framework (example_request [] []) ''abc123n1zz''
     = (HttpResponseRedirect
          ''https://op.example/authorize?scope=openid+email&response_type=code&client_id=client-1&redirect_uri=https%3A%2F%2Frp.example%2Foidc%2Fcallback%2F&state=abc123&nonce=n1'',
        session_set (session_set (example_request [] []) ''oidc_auth_nonce'' ''n1'') ''oidc_auth_state'' ''abc123'',
        ''zz'')"
    by (simp add: auth_request_get_def example_settings_def example_framework_def urlencode_def
          quote_char_def hex_digit_def Let_def)
  show ?thesis
    using run auth_request_redirect_url [OF run]
    by (simp add: example_settings_def example_framework_def session_set_def)
qed

section \<open>Properties of the end-session view\<close>

text \<open>
  C9. Every run of the session terminator clears the local session (its store and the
  principal bound to it) and returns a redirect: when an end-session endpoint is
  configured, to this endpoint with the post-logout redirect URI and, if there is one,
  the ID-token hint as URL-encoded parameters; otherwise to the post-logout target
  itself.
\<close>

theorem end_session_clears_and_redirects:
  fixes cfg :: end_session_settings and quote :: "string \<Rightarrow> string"
    and id_token_hint :: "string option" and s :: local_session
  defines "r \<equiv> end_session cfg quote id_token_hint s"
  shows "store (snd r) = Map.empty \<and> principal (snd r) = None
         \<and> (PROVIDER_END_SESSION_ENDPOINT cfg = None \<longrightarrow>
              fst r = HttpResponseRedirect (post_logout_target cfg))
         \<and> (\<forall>endpoint. PROVIDER_END_SESSION_ENDPOINT cfg = Some endpoint \<longrightarrow>
              (id_token_hint = None \<longrightarrow>
                 fst r = HttpResponseRedirect
                   (endpoint @ ''?'' @
                    urlencode quote [(''post_logout_redirect_uri'', post_logout_target cfg)]))
              \<and> (\<forall>h. id_token_hint = Some h \<longrightarrow>
                 fst r = HttpResponseRedirect
                   (endpoint @ ''?'' @
                    urlencode quote [(''post_logout_redirect_uri'', post_logout_target cfg),
                                     (''id_token_hint'', h)])))"
  unfolding r_def
  by (simp add: end_session_def Let_def split: option.split)

theorem end_session_clears_and_redirects_witness:
  "PROVIDER_END_SESSION_ENDPOINT
     \<lparr>PROVIDER_END_SESSION_ENDPOINT = Some ''https://op.example/logout'', post_logout_target = ''/''\<rparr>
     = Some ''https://op.example/logout''
   \<and> fst (end_session
        \<lparr>PROVIDER_END_SESSION_ENDPOINT = Some ''https://op.example/logout'', post_logout_target = ''/''\<rparr>
        (quote_plus example_framework) (Some ''tok'')
        \<lparr>store = map_of [(''oidc_auth_state'', ''abc123'')], principal = Some (alice True)\<rparr>)
       = HttpResponseRedirect ''https://op.example/logout?post_logout_redirect_uri=%2F&id_token_hint=tok''
   \<and> principal (snd (end_session
        \<lparr>PROVIDER_END_SESSION_ENDPOINT = Some ''https://op.example/logout'', post_logout_target = ''/''\<rparr>
        (quote_plus example_framework) (Some ''tok'')
        \<lparr>store = map_of [(''oidc_auth_state'', ''abc123'')], principal = Some (alice True)\<rparr>)) = None
   \<and> fst (end_session
        \<lparr>PROVIDER_END_SESSION_ENDPOINT = None, post_logout_target = ''/''\<rparr>
        (quote_plus example_framework) None
        \<lparr>store = map_of [(''oidc_auth_state'', ''abc123'')], principal = Some (alice True)\<rparr>)
       = HttpResponseRedirect ''/''"
  using
    end_session_clears_and_redirects
      [where cfg = "\<lparr>PROVIDER_END_SESSION_ENDPOINT = Some ''https://op.example/logout'', post_logout_target = ''/''\<rparr>"
         and quote = "quote_plus example_framework" and id_token_hint = "Some ''tok''"
         and s = "\<lparr>store = map_of [(''oidc_auth_state'', ''abc123'')], principal = Some (alice True)\<rparr>"]
    end_session_clears_and_redirects
      [where cfg = "\<lparr>PROVIDER_END_SESSION_ENDPOINT = None, post_logout_target = ''/''\<rparr>"
         and quote = "quote_plus example_framework" and id_token_hint = None
         and s = "\<lparr>store = map_of [(''oidc_auth_state'', ''abc123'')], principal = Some (alice True)\<rparr>"]
  by (simp add: example_framework_def urlencode_def quote_char_def hex_digit_def)

end
